theory Spec2Isabelle
  imports Complex_Main "HOL-Library.Multiset"
begin

section \<open>Numeric conventions\<close>

text \<open>
  Python floats are embedded as real numbers: rounding error, NaN, the infinities and
  signed zeros are outside this model. Exceptions are values of \<open>py_error\<close>.
\<close>

datatype py_error = ZeroDivisionError | ValueError | LinAlgError | OtherError

text \<open>\<open>int(v)\<close> on a float truncates toward zero.\<close>

definition py_int :: "real \<Rightarrow> int" where
  "py_int v = (if 0 \<le> v then \<lfloor>v\<rfloor> else \<lceil>v\<rceil>)"

text \<open>\<open>round(v, n)\<close>: nearest multiple of \<open>10^-n\<close>, ties to the even neighbour.\<close>

definition round_half_even :: "real \<Rightarrow> int" where
  "round_half_even r =
     (let f = \<lfloor>r\<rfloor>; d = r - of_int f
      in if d < 1 / 2 then f else if 1 / 2 < d then f + 1
         else if even f then f else f + 1)"

definition py_round :: "real \<Rightarrow> nat \<Rightarrow> real" where
  "py_round v n = of_int (round_half_even (v * 10 ^ n)) / 10 ^ n"

text \<open>\<open>math.atan2(y, x)\<close> on reals, result in \<open>(-pi, pi]\<close>; \<open>math.degrees\<close>.\<close>

definition atan2 :: "real \<Rightarrow> real \<Rightarrow> real" where
  "atan2 y x =
     (if 0 < x then arctan (y / x)
      else if x < 0 then (if 0 \<le> y then arctan (y / x) + pi else arctan (y / x) - pi)
      else if 0 < y then pi / 2
      else if y < 0 then - (pi / 2)
      else 0)"

definition degrees :: "real \<Rightarrow> real" where
  "degrees r = r * 180 / pi"

section \<open>Point\<close>

datatype point = Point (xc: real) (yc: real)

definition distance_to :: "point \<Rightarrow> point \<Rightarrow> real" where
  "distance_to a b = sqrt ((xc a - xc b)\<^sup>2 + (yc a - yc b)\<^sup>2)"

text \<open>\<open>Point.__eq__\<close>: both coordinates closer than \<open>1e-6\<close>.\<close>

definition point_eq :: "point \<Rightarrow> point \<Rightarrow> bool" where
  "point_eq a b = (\<bar>xc a - xc b\<bar> < 1 / 1000000 \<and> \<bar>yc a - yc b\<bar> < 1 / 1000000)"

text \<open>
  \<open>Point.__hash__\<close> is the builtin hash of the tuple \<open>(round(x, 6), round(y, 6))\<close>.
  \<open>hash_key\<close> is that tuple; \<open>point_hash H\<close> applies a tuple hash \<open>H\<close> to it.
\<close>

definition hash_key :: "point \<Rightarrow> real \<times> real" where
  "hash_key p = (py_round (xc p) 6, py_round (yc p) 6)"

definition point_hash :: "(real \<times> real \<Rightarrow> int) \<Rightarrow> point \<Rightarrow> int" where
  "point_hash H p = H (hash_key p)"

section \<open>Curve flattener\<close>

definition bezier_segments :: "point \<Rightarrow> point \<Rightarrow> point \<Rightarrow> point \<Rightarrow> int \<Rightarrow> bool \<Rightarrow> int" where
  "bezier_segments p0 p1 p2 p3 segments adaptive =
     (if adaptive then
        (let chord_length = distance_to p0 p3;
             control_length = distance_to p0 p1 + distance_to p1 p2 + distance_to p2 p3;
             segs = (if 1 / 1000 < chord_length then
                       (let ratio = control_length / chord_length
                        in if 15 / 10 < ratio then min 64 (py_int (of_int segments * ratio))
                           else if 12 / 10 < ratio then min 48 (py_int (of_int segments * (15 / 10)))
                           else if 11 / 10 < ratio then min 32 (py_int (of_int segments * (12 / 10)))
                           else segments)
                     else segments)
         in if 100 < control_length then max segs 32
            else if 50 < control_length then max segs 24
            else segs)
      else segments)"

definition cubic_at :: "point \<Rightarrow> point \<Rightarrow> point \<Rightarrow> point \<Rightarrow> real \<Rightarrow> point" where
  "cubic_at p0 p1 p2 p3 t =
     (let t2 = t * t; t3 = t2 * t; mt = 1 - t; mt2 = mt * mt; mt3 = mt2 * mt
      in Point (mt3 * xc p0 + 3 * mt2 * t * xc p1 + 3 * mt * t2 * xc p2 + t3 * xc p3)
               (mt3 * yc p0 + 3 * mt2 * t * yc p1 + 3 * mt * t2 * yc p2 + t3 * yc p3))"

text \<open>
  The sampling loop \<open>for i in range(segments + 1): t = i / segments\<close>: with
  \<open>segments = 0\<close> the first iteration divides by zero, with a negative count the
  range is empty.
\<close>

definition sample_curve :: "(real \<Rightarrow> point) \<Rightarrow> int \<Rightarrow> py_error + point list" where
  "sample_curve f segments =
     (if segments = 0 then Inl ZeroDivisionError
      else Inr (map (\<lambda>i. f (of_int i / of_int segments)) [0..segments]))"

definition bezier_to_points ::
  "point \<Rightarrow> point \<Rightarrow> point \<Rightarrow> point \<Rightarrow> int \<Rightarrow> bool \<Rightarrow> py_error + point list" where
  "bezier_to_points p0 p1 p2 p3 segments adaptive =
     sample_curve (cubic_at p0 p1 p2 p3) (bezier_segments p0 p1 p2 p3 segments adaptive)"

definition quad_segments :: "point \<Rightarrow> point \<Rightarrow> point \<Rightarrow> int \<Rightarrow> bool \<Rightarrow> int" where
  "quad_segments p0 p1 p2 segments adaptive =
     (if adaptive then
        (let chord_length = distance_to p0 p2;
             control_length = distance_to p0 p1 + distance_to p1 p2
         in if 1 / 1000 < chord_length then
              (let ratio = control_length / chord_length
               in if 13 / 10 < ratio then min 32 (py_int (of_int segments * ratio))
                  else if 11 / 10 < ratio then min 24 (py_int (of_int segments * (13 / 10)))
                  else segments)
            else segments)
      else segments)"

definition quad_at :: "point \<Rightarrow> point \<Rightarrow> point \<Rightarrow> real \<Rightarrow> point" where
  "quad_at p0 p1 p2 t =
     (let mt = 1 - t
      in Point (mt * mt * xc p0 + 2 * mt * t * xc p1 + t * t * xc p2)
               (mt * mt * yc p0 + 2 * mt * t * yc p1 + t * t * yc p2))"

definition quad_bezier_to_points ::
  "point \<Rightarrow> point \<Rightarrow> point \<Rightarrow> int \<Rightarrow> bool \<Rightarrow> py_error + point list" where
  "quad_bezier_to_points p0 p1 p2 segments adaptive =
     sample_curve (quad_at p0 p1 p2) (quad_segments p0 p1 p2 segments adaptive)"

section \<open>Entities and the data container\<close>

datatype linetype = CONTINUOUS | DASHED | DASHDOT | DASHDOT2 | DOTTED | HIDDEN

type_synonym rgb = "real \<times> real \<times> real"

record line =
  line_start :: point
  line_end :: point
  line_color :: rgb
  line_width :: real
  line_layer :: string
  line_linetype :: linetype

record arc =
  arc_center :: point
  arc_radius :: real
  arc_start_angle :: real
  arc_end_angle :: real
  arc_color :: rgb
  arc_width :: real
  arc_layer :: string
  arc_linetype :: linetype

record circle =
  circle_center :: point
  circle_radius :: real
  circle_color :: rgb
  circle_width :: real
  circle_layer :: string
  circle_linetype :: linetype

record ellipse =
  ell_center :: point
  ell_major_axis :: point
  ell_ratio :: real
  ell_start_param :: real
  ell_end_param :: real
  ell_color :: rgb
  ell_width :: real
  ell_layer :: string
  ell_linetype :: linetype

record polyline =
  poly_points :: "point list"
  poly_closed :: bool
  poly_color :: rgb
  poly_width :: real
  poly_layer :: string
  poly_linetype :: linetype
  poly_bulges :: "real list"

record rectangle =
  rect_corner :: point
  rect_width :: real
  rect_height :: real
  rect_color :: rgb
  rect_line_width :: real
  rect_layer :: string
  rect_linetype :: linetype
  rect_fill_color :: "rgb option"

text \<open>Of \<open>Hatch\<close> only the fields the engine sets; the others keep their defaults.\<close>

record hatch =
  boundary_paths :: "point list list"
  pattern_name :: string
  hatch_color :: rgb

text \<open>Entities of sibling collaborators, never built or inspected by the engine.\<close>

typedecl spline
typedecl text_entity
typedecl mtext
typedecl image_entity
typedecl layer_info

record extracted_data =
  lines :: "line list"
  arcs :: "arc list"
  circles :: "circle list"
  ellipses :: "ellipse list"
  polylines :: "polyline list"
  splines :: "spline list"
  texts :: "text_entity list"
  mtexts :: "mtext list"
  rectangles :: "rectangle list"
  hatches :: "hatch list"
  images :: "image_entity list"
  page_width :: real
  page_height :: real
  layers :: "(string \<times> layer_info) list"

text \<open>\<open>ExtractedData()\<close> with every field at its default.\<close>

definition empty_data :: extracted_data where
  "empty_data =
     \<lparr>lines = [], arcs = [], circles = [], ellipses = [], polylines = [], splines = [],
      texts = [], mtexts = [], rectangles = [], hatches = [], images = [],
      page_width = 0, page_height = 0, layers = []\<rparr>"

section \<open>Primitive classifier\<close>










section \<open>Subpath reconstructor\<close>

text \<open>
  One entry of a path's \<open>items\<close>, by command tag and arity as the command loop
  dispatches on them. \<open>LineTo1\<close> is the single-endpoint fallback of \<open>'l'\<close>;
  \<open>Ignored\<close> stands for any item that no branch accepts (unknown tag or too few
  operands). Coordinates are source coordinates, still to be transformed.
\<close>

type_synonym raw_point = "real \<times> real"

datatype item =
    MoveTo raw_point
  | LineTo raw_point raw_point
  | LineTo1 raw_point
  | CurveTo raw_point raw_point raw_point
  | CurveV raw_point raw_point
  | CurveY raw_point raw_point
  | RectTo real real real real
  | ClosePath
  | QuadTo raw_point raw_point
  | Ignored

text \<open>
  A path of \<open>page.get_drawings()\<close> after the preamble of the loop body has read its
  dictionary: stroke colour (black when absent or malformed), fill colour, stroke width
  (already scaled), line type of the dash pattern and the declared close flag.
\<close>

record drawing =
  d_items :: "item list"
  d_color :: rgb
  d_fill_color :: "rgb option"
  d_width :: real
  d_linetype :: linetype
  d_closePath :: bool

record subpath =
  sp_points :: "point list"
  sp_closed :: bool
  sp_has_curves :: bool

text \<open>The local variables of the command loop, and the container it appends to.\<close>

record path_state =
  all_subpaths :: "subpath list"
  current_point :: "point option"
  path_points :: "point list"
  path_start :: "point option"
  has_curves :: bool
  out_data :: extracted_data

definition transform_y :: "real \<Rightarrow> real \<Rightarrow> real \<Rightarrow> real" where
  "transform_y scale y pheight = (pheight - y) * scale"

definition transform_point :: "real \<Rightarrow> real \<Rightarrow> raw_point \<Rightarrow> point" where
  "transform_point scale pheight r = Point (fst r * scale) (transform_y scale (snd r) pheight)"

text \<open>\<open>if len(path_points) > 1: all_subpaths.append({...})\<close>\<close>

definition flush_subpath :: "bool \<Rightarrow> path_state \<Rightarrow> path_state" where
  "flush_subpath is_closed st =
     (if 1 < length (path_points st) then
        st\<lparr>all_subpaths := all_subpaths st @
          [\<lparr>sp_points = path_points st, sp_closed = is_closed, sp_has_curves = has_curves st\<rparr>]\<rparr>
      else st)"

text \<open>\<open>path_points.extend(curve_points[1:]); has_curves = True; current_point = end\<close>\<close>

definition extend_curve :: "py_error + point list \<Rightarrow> point \<Rightarrow> path_state \<Rightarrow> py_error + path_state" where
  "extend_curve curve_points end_pt st =
     (case curve_points of
        Inl err \<Rightarrow> Inl err
      | Inr pts \<Rightarrow> Inr (st\<lparr>path_points := path_points st @ tl pts, has_curves := True,
                          current_point := Some end_pt\<rparr>))"

fun process_item :: "real \<Rightarrow> real \<Rightarrow> drawing \<Rightarrow> item \<Rightarrow> path_state \<Rightarrow> py_error + path_state" where
  "process_item scale pheight dr (MoveTo r) st =
     (let st1 = flush_subpath False st;
          cp = transform_point scale pheight r
      in Inr (st1\<lparr>path_points := [cp], has_curves := False,
                  current_point := Some cp, path_start := Some cp\<rparr>))"
| "process_item scale pheight dr (LineTo r1 r2) st =
     (let start_point = transform_point scale pheight r1;
          end_point = transform_point scale pheight r2;
          st1 = (if current_point st = None \<or> length (path_points st) = 0 then
                   st\<lparr>path_points := path_points st @ [start_point],
                      path_start := Some start_point\<rparr>
                 else if \<not> point_eq (the (current_point st)) start_point then
                   (flush_subpath False st)\<lparr>path_points := [start_point],
                      path_start := Some start_point, has_curves := False\<rparr>
                 else st)
      in Inr (st1\<lparr>path_points := path_points st1 @ [end_point],
                  current_point := Some end_point\<rparr>))"
| "process_item scale pheight dr (LineTo1 r) st =
     (let end_point = transform_point scale pheight r;
          st1 = (if current_point st \<noteq> None then
                   st\<lparr>path_points := path_points st @ [end_point]\<rparr>
                 else st)
      in Inr (st1\<lparr>current_point := Some end_point\<rparr>))"
| "process_item scale pheight dr (CurveTo r1 r2 r3) st =
     (let ctrl1 = transform_point scale pheight r1;
          ctrl2 = transform_point scale pheight r2;
          end_pt = transform_point scale pheight r3
      in case current_point st of
           Some cp \<Rightarrow> extend_curve (bezier_to_points cp ctrl1 ctrl2 end_pt 16 True) end_pt st
         | None \<Rightarrow> Inr (st\<lparr>has_curves := True, current_point := Some end_pt\<rparr>))"
| "process_item scale pheight dr (CurveV r2 r3) st =
     (case current_point st of
        Some cp \<Rightarrow>
          (let ctrl2 = transform_point scale pheight r2;
               end_pt = transform_point scale pheight r3
           in extend_curve (bezier_to_points cp cp ctrl2 end_pt 16 True) end_pt st)
      | None \<Rightarrow> Inr st)"
| "process_item scale pheight dr (CurveY r1 r3) st =
     (case current_point st of
        Some cp \<Rightarrow>
          (let ctrl1 = transform_point scale pheight r1;
               end_pt = transform_point scale pheight r3
           in extend_curve (bezier_to_points cp ctrl1 end_pt end_pt 16 True) end_pt st)
      | None \<Rightarrow> Inr st)"
| "process_item scale pheight dr (RectTo x0 y0 x1 y1) st =
     (let corner = transform_point scale pheight (x0, y1);
          rect_w = (x1 - x0) * scale;
          rect_h = (y1 - y0) * scale;
          data = out_data st;
          data1 = data\<lparr>rectangles := rectangles data @
                    [\<lparr>rect_corner = corner, rect_width = rect_w, rect_height = rect_h,
                      rect_color = d_color dr, rect_line_width = d_width dr,
                      rect_layer = ''0'', rect_linetype = d_linetype dr,
                      rect_fill_color = d_fill_color dr\<rparr>]\<rparr>;
          data2 = (case d_fill_color dr of
                     None \<Rightarrow> data1
                   | Some fc \<Rightarrow> data1\<lparr>hatches := hatches data1 @
                       [\<lparr>boundary_paths =
                           [[corner,
                             Point (xc corner + rect_w) (yc corner),
                             Point (xc corner + rect_w) (yc corner + rect_h),
                             Point (xc corner) (yc corner + rect_h),
                             corner]],
                         pattern_name = ''SOLID'', hatch_color = fc\<rparr>]\<rparr>)
      in Inr (st\<lparr>out_data := data2\<rparr>))"
| "process_item scale pheight dr ClosePath st =
     (let st1 = (if path_start st \<noteq> None \<and> current_point st \<noteq> None
                    \<and> \<not> point_eq (the (path_start st)) (the (current_point st)) then
                   st\<lparr>path_points := path_points st @ [the (path_start st)]\<rparr>
                 else st);
          st2 = flush_subpath True st1
      in Inr (st2\<lparr>path_points := [], has_curves := False\<rparr>))"
| "process_item scale pheight dr (QuadTo r1 r2) st =
     (case current_point st of
        Some cp \<Rightarrow>
          (let ctrl = transform_point scale pheight r1;
               end_pt = transform_point scale pheight r2
           in extend_curve (quad_bezier_to_points cp ctrl end_pt 12 True) end_pt st)
      | None \<Rightarrow> Inr st)"
| "process_item scale pheight dr Ignored st = Inr st"

fun process_items :: "real \<Rightarrow> real \<Rightarrow> drawing \<Rightarrow> item list \<Rightarrow> path_state \<Rightarrow> py_error + path_state" where
  "process_items scale pheight dr [] st = Inr st"
| "process_items scale pheight dr (it # its) st =
     (case process_item scale pheight dr it st of
        Inl err \<Rightarrow> Inl err
      | Inr st1 \<Rightarrow> process_items scale pheight dr its st1)"

text \<open>The state before the first item of a path.\<close>

definition initial_state :: "extracted_data \<Rightarrow> path_state" where
  "initial_state data =
     \<lparr>all_subpaths = [], current_point = None, path_points = [], path_start = None,
      has_curves = False, out_data = data\<rparr>"

text \<open>\<open># Save remaining path points\<close>, after the last item.\<close>

definition save_remaining :: "drawing \<Rightarrow> path_state \<Rightarrow> path_state" where
  "save_remaining dr st =
     (if 1 < length (path_points st) then
        (let is_closed = (d_closePath dr \<or>
               (case path_start st of
                  None \<Rightarrow> False
                | Some s \<Rightarrow> point_eq (last (path_points st)) s))
         in flush_subpath is_closed st)
      else st)"





section \<open>Circle and arc fitter\<close>

text \<open>\<open>math.sqrt\<close> raises \<open>ValueError\<close> below zero; \<open>/\<close> raises on a zero divisor.\<close>

definition py_sqrt :: "real \<Rightarrow> py_error + real" where
  "py_sqrt v = (if v < 0 then Inl ValueError else Inr (sqrt v))"

definition py_div :: "real \<Rightarrow> real \<Rightarrow> py_error + real" where
  "py_div a b = (if b = 0 then Inl ZeroDivisionError else Inr (a / b))"

text \<open>
  \<open>numpy.linalg.lstsq(A, b, rcond=None)\<close> is a parameter of the model: it receives the
  rows of \<open>A\<close> and the entries of \<open>b\<close> and either raises or returns the three
  coefficients. Nothing is assumed about what it returns.
\<close>

type_synonym lstsq_solver = "(real \<times> real \<times> real) list \<Rightarrow> real list \<Rightarrow> py_error + (real \<times> real \<times> real)"

type_synonym circle_fit = "(real \<times> real) \<times> real \<times> real"

fun radial_errors :: "point list \<Rightarrow> real \<Rightarrow> real \<Rightarrow> real \<Rightarrow> py_error + real list" where
  "radial_errors [] cx cy radius = Inr []"
| "radial_errors (p # ps) cx cy radius =
     (case py_sqrt ((xc p - cx)\<^sup>2 + (yc p - cy)\<^sup>2) of
        Inl err \<Rightarrow> Inl err
      | Inr dst \<Rightarrow>
          (case radial_errors ps cx cy radius of
             Inl err \<Rightarrow> Inl err
           | Inr errors \<Rightarrow> Inr ((dst - radius)\<^sup>2 # errors)))"

text \<open>The body of the \<open>try\<close> block of \<open>_fit_circle\<close>.\<close>

definition fit_circle_try :: "lstsq_solver \<Rightarrow> point list \<Rightarrow> py_error + circle_fit option" where
  "fit_circle_try lstsq points =
     (if length points < 3 then Inr None
      else
        (case lstsq (map (\<lambda>p. (xc p, yc p, 1)) points)
                    (map (\<lambda>p. xc p * xc p + yc p * yc p) points) of
           Inl err \<Rightarrow> Inl err
         | Inr (r0, r1, r2) \<Rightarrow>
             (let cx = r0 / 2; cy = r1 / 2; r_squared = r2 + cx * cx + cy * cy
              in if r_squared \<le> 0 then Inr None
                 else
                   (case py_sqrt r_squared of
                      Inl err \<Rightarrow> Inl err
                    | Inr radius \<Rightarrow>
                        (case radial_errors points cx cy radius of
                           Inl err \<Rightarrow> Inl err
                         | Inr errors \<Rightarrow>
                             (case py_div (sum_list errors) (real (length errors)) of
                                Inl err \<Rightarrow> Inl err
                              | Inr mean \<Rightarrow>
                                  (case py_sqrt mean of
                                     Inl err \<Rightarrow> Inl err
                                   | Inr rms_error \<Rightarrow>
                                       Inr (Some ((cx, cy), radius, rms_error)))))))))"

text \<open>\<open>except Exception: return None\<close>\<close>

definition fit_circle :: "lstsq_solver \<Rightarrow> point list \<Rightarrow> circle_fit option" where
  "fit_circle lstsq points =
     (case fit_circle_try lstsq points of Inl err \<Rightarrow> None | Inr res \<Rightarrow> res)"

text \<open>The loop \<open>for i in range(len(angles) - 1)\<close> summing the gaps below \<open>pi\<close>.\<close>

fun sum_gaps :: "real list \<Rightarrow> real \<Rightarrow> real" where
  "sum_gaps (a # b # rest) covered =
     sum_gaps (b # rest) (if b - a < pi then covered + (b - a) else covered)"
| "sum_gaps [a] covered = covered"
| "sum_gaps [] covered = covered"

text \<open>The covered angle computed from the sorted angles (at least one angle).\<close>

definition total_coverage :: "real list \<Rightarrow> real" where
  "total_coverage angles =
     (let sorted_angles = sort angles;
          gaps = sum_gaps sorted_angles 0;
          wrap_gap = 2 * pi - (last sorted_angles - hd sorted_angles)
      in if wrap_gap < pi then gaps + wrap_gap else gaps)"

definition is_full_circle :: "point list \<Rightarrow> real \<times> real \<Rightarrow> real \<Rightarrow> bool" where
  "is_full_circle points center radius =
     (if length points < 8 then False
      else 9 / 10 * 2 * pi
           < total_coverage (map (\<lambda>p. atan2 (yc p - snd center) (xc p - fst center)) points))"

fun signed_area :: "point list \<Rightarrow> real \<times> real \<Rightarrow> real \<Rightarrow> real" where
  "signed_area (p1 # p2 # rest) center acc =
     signed_area (p2 # rest) center
       (acc + (xc p1 - fst center) * (yc p2 - snd center)
            - (xc p2 - fst center) * (yc p1 - snd center))"
| "signed_area [p] center acc = acc"
| "signed_area [] center acc = acc"

definition is_ccw :: "point list \<Rightarrow> real \<times> real \<Rightarrow> bool" where
  "is_ccw points center =
     (if length points < 3 then True else 0 < signed_area points center 0)"

definition calculate_arc_angles :: "real \<times> real \<Rightarrow> point \<Rightarrow> point \<Rightarrow> real \<times> real" where
  "calculate_arc_angles center start_pt end_pt =
     (let start_angle = degrees (atan2 (yc start_pt - snd center) (xc start_pt - fst center));
          end_angle = degrees (atan2 (yc end_pt - snd center) (xc end_pt - fst center))
      in (if start_angle < 0 then start_angle + 360 else start_angle,
          if end_angle < 0 then end_angle + 360 else end_angle))"

text \<open>
  One iteration of the loop of \<open>detect_circles_and_arcs\<close>, on the pair of the container
  and \<open>new_polylines\<close>.
\<close>

definition circle_step ::
  "lstsq_solver \<Rightarrow> real \<Rightarrow> polyline \<Rightarrow> extracted_data \<times> polyline list \<Rightarrow> extracted_data \<times> polyline list" where
  "circle_step lstsq tolerance pl acc =
     (case acc of (data, new_polylines) \<Rightarrow>
        if length (poly_points pl) < 6 then (data, new_polylines @ [pl])
        else
          (case fit_circle lstsq (poly_points pl) of
             None \<Rightarrow> (data, new_polylines @ [pl])
           | Some (center, radius, error) \<Rightarrow>
               if 5 / 10 < radius \<and> error < tolerance * radius then
                 (if is_full_circle (poly_points pl) center radius \<and> poly_closed pl then
                    (data\<lparr>circles := circles data @
                       [\<lparr>circle_center = Point (fst center) (snd center), circle_radius = radius,
                         circle_color = poly_color pl, circle_width = poly_width pl,
                         circle_layer = poly_layer pl, circle_linetype = poly_linetype pl\<rparr>]\<rparr>,
                     new_polylines)
                  else
                    (let angles = calculate_arc_angles center (hd (poly_points pl))
                                    (last (poly_points pl));
                         angles1 = (if \<not> is_ccw (poly_points pl) center
                                    then (snd angles, fst angles) else angles)
                     in (data\<lparr>arcs := arcs data @
                           [\<lparr>arc_center = Point (fst center) (snd center), arc_radius = radius,
                             arc_start_angle = fst angles1, arc_end_angle = snd angles1,
                             arc_color = poly_color pl, arc_width = poly_width pl,
                             arc_layer = poly_layer pl, arc_linetype = poly_linetype pl\<rparr>]\<rparr>,
                         new_polylines)))
               else (data, new_polylines @ [pl])))"

fun circle_loop ::
  "lstsq_solver \<Rightarrow> real \<Rightarrow> polyline list \<Rightarrow> extracted_data \<times> polyline list \<Rightarrow> extracted_data \<times> polyline list" where
  "circle_loop lstsq tolerance [] acc = acc"
| "circle_loop lstsq tolerance (pl # pls) acc =
     circle_loop lstsq tolerance pls (circle_step lstsq tolerance pl acc)"

definition detect_circles_and_arcs :: "lstsq_solver \<Rightarrow> real \<Rightarrow> extracted_data \<Rightarrow> extracted_data" where
  "detect_circles_and_arcs lstsq tolerance data =
     (case circle_loop lstsq tolerance (polylines data) (data, []) of
        (data1, new_polylines) \<Rightarrow> data1\<lparr>polylines := new_polylines\<rparr>)"

section \<open>Ellipse fitter\<close>

text \<open>
  The \<open>numpy\<close> part of \<open>_fit_ellipse\<close> (design matrix, \<open>eig(inv(S) @ C)\<close>, choice of
  the smallest real positive eigenvalue) is a parameter of the model. It raises
  (\<open>Inl\<close>), finds no valid eigenvalue (\<open>Inr None\<close>) or returns the conic coefficients
  \<open>(a, b, c, d, e, f)\<close>. Nothing is assumed about what it returns.
\<close>

type_synonym conic = "real \<times> real \<times> real \<times> real \<times> real \<times> real"

type_synonym conic_solver = "point list \<Rightarrow> py_error + conic option"

text \<open>The fitting error is a float that may be \<open>float('inf')\<close>.\<close>

datatype err_val = Finite real | Infinite

definition err_less :: "err_val \<Rightarrow> real \<Rightarrow> bool" where
  "err_less e bound = (case e of Finite v \<Rightarrow> v < bound | Infinite \<Rightarrow> False)"

type_synonym ellipse_fit = "(real \<times> real) \<times> (real \<times> real) \<times> (real \<times> real) \<times> real \<times> err_val"

fun ellipse_errors ::
  "point list \<Rightarrow> real \<Rightarrow> real \<Rightarrow> real \<Rightarrow> real \<Rightarrow> real \<Rightarrow> real \<Rightarrow> real list" where
  "ellipse_errors [] cx cy cos_t sin_t semi_major semi_minor = []"
| "ellipse_errors (p # ps) cx cy cos_t sin_t semi_major semi_minor =
     (let dx = xc p - cx; dy = yc p - cy;
          px = dx * cos_t + dy * sin_t;
          py = - dx * sin_t + dy * cos_t;
          rest = ellipse_errors ps cx cy cos_t sin_t semi_major semi_minor
      in if 0 < semi_major \<and> 0 < semi_minor then
           (\<bar>(px / semi_major)\<^sup>2 + (py / semi_minor)\<^sup>2 - 1\<bar> * min semi_major semi_minor) # rest
         else rest)"

text \<open>The body of the outer \<open>try\<close> block of \<open>_fit_ellipse\<close>.\<close>

definition fit_ellipse_try :: "conic_solver \<Rightarrow> point list \<Rightarrow> py_error + ellipse_fit option" where
  "fit_ellipse_try solver points =
     (if length points < 6 then Inr None
      else
        (case solver points of
           Inl err \<Rightarrow> (if err = LinAlgError then Inr None else Inl err)
         | Inr None \<Rightarrow> Inr None
         | Inr (Some (a, b, c, d, e, f)) \<Rightarrow>
             (let discriminant = b * b - 4 * a * c
              in if 0 \<le> discriminant then Inr None
                 else
                   (let cx = (2 * c * d - b * e) / discriminant;
                        cy = (2 * a * e - b * d) / discriminant;
                        theta = (if \<bar>a - c\<bar> < 1 / 10 ^ 10
                                 then (if 0 < b then pi / 4 else - (pi / 4))
                                 else 5 / 10 * atan2 b (a - c));
                        cos_t = cos theta;
                        sin_t = sin theta;
                        a_prime = a * cos_t * cos_t + b * cos_t * sin_t + c * sin_t * sin_t;
                        c_prime = a * sin_t * sin_t - b * cos_t * sin_t + c * cos_t * cos_t;
                        f_prime = a * cx * cx + b * cx * cy + c * cy * cy + d * cx + e * cy + f
                    in if \<bar>a_prime\<bar> < 1 / 10 ^ 10 \<or> \<bar>c_prime\<bar> < 1 / 10 ^ 10 then Inr None
                       else
                         (let a_sq = - f_prime / a_prime;
                              b_sq = - f_prime / c_prime
                          in if a_sq \<le> 0 \<or> b_sq \<le> 0 then Inr None
                             else
                               (case py_sqrt (max a_sq b_sq) of
                                  Inl err \<Rightarrow> Inl err
                                | Inr semi_major \<Rightarrow>
                                    (case py_sqrt (min a_sq b_sq) of
                                       Inl err \<Rightarrow> Inl err
                                     | Inr semi_minor \<Rightarrow>
                                         (let major_axis =
                                                (if b_sq \<le> a_sq
                                                 then (semi_major * cos_t, semi_major * sin_t)
                                                 else (semi_major * sin_t, - semi_major * cos_t));
                                              minor_axis =
                                                (if b_sq \<le> a_sq
                                                 then (- semi_minor * sin_t, semi_minor * cos_t)
                                                 else (semi_minor * cos_t, semi_minor * sin_t));
                                              errors = ellipse_errors points cx cy cos_t sin_t
                                                         semi_major semi_minor
                                          in if errors = [] then
                                               Inr (Some ((cx, cy), major_axis, minor_axis, theta,
                                                          Infinite))
                                             else
                                               (case py_sqrt (sum_list (map (\<lambda>e. e * e) errors)
                                                               / real (length errors)) of
                                                  Inl err \<Rightarrow> Inl err
                                                | Inr rms_error \<Rightarrow>
                                                    Inr (Some ((cx, cy), major_axis, minor_axis,
                                                               theta, Finite rms_error)))))))))))"

text \<open>\<open>except Exception: return None\<close>\<close>

definition fit_ellipse :: "conic_solver \<Rightarrow> point list \<Rightarrow> ellipse_fit option" where
  "fit_ellipse solver points =
     (case fit_ellipse_try solver points of Inl err \<Rightarrow> None | Inr res \<Rightarrow> res)"

definition ellipse_frame_angle :: "real \<times> real \<Rightarrow> real \<Rightarrow> real \<Rightarrow> point \<Rightarrow> real" where
  "ellipse_frame_angle center cos_t sin_t p =
     (let dx = xc p - fst center; dy = yc p - snd center;
          px = dx * cos_t + dy * sin_t;
          py = - dx * sin_t + dy * cos_t
      in atan2 py px)"

definition is_full_ellipse ::
  "point list \<Rightarrow> real \<times> real \<Rightarrow> real \<times> real \<Rightarrow> real \<times> real \<Rightarrow> bool" where
  "is_full_ellipse points center major_axis minor_axis =
     (if length points < 10 then False
      else
        (let major_len = sqrt ((fst major_axis)\<^sup>2 + (snd major_axis)\<^sup>2)
         in if major_len < 1 / 10 ^ 10 then False
            else
              (let theta = atan2 (snd major_axis) (fst major_axis);
                   cos_t = cos (- theta);
                   sin_t = sin (- theta)
               in 85 / 100 * 2 * pi
                  < total_coverage (map (ellipse_frame_angle center cos_t sin_t) points))))"

definition calculate_ellipse_params ::
  "real \<times> real \<Rightarrow> real \<times> real \<Rightarrow> real \<times> real \<Rightarrow> real \<Rightarrow> point \<Rightarrow> point \<Rightarrow> real \<times> real" where
  "calculate_ellipse_params center major_axis minor_axis rotation start_pt end_pt =
     (let cos_t = cos (- rotation);
          sin_t = sin (- rotation);
          start_param = ellipse_frame_angle center cos_t sin_t start_pt;
          end_param = ellipse_frame_angle center cos_t sin_t end_pt
      in (if start_param < 0 then start_param + 2 * pi else start_param,
          if end_param < 0 then end_param + 2 * pi else end_param))"

text \<open>One iteration of the loop of \<open>detect_ellipses\<close>.\<close>

definition ellipse_step ::
  "conic_solver \<Rightarrow> real \<Rightarrow> polyline \<Rightarrow> extracted_data \<times> polyline list \<Rightarrow> extracted_data \<times> polyline list" where
  "ellipse_step solver tolerance pl acc =
     (case acc of (data, new_polylines) \<Rightarrow>
        if length (poly_points pl) < 8 then (data, new_polylines @ [pl])
        else
          (case fit_ellipse solver (poly_points pl) of
             None \<Rightarrow> (data, new_polylines @ [pl])
           | Some (center, major_axis, minor_axis, rotation, error) \<Rightarrow>
               (let major_len = sqrt ((fst major_axis)\<^sup>2 + (snd major_axis)\<^sup>2)
                in if 5 / 10 < major_len \<and> err_less error (tolerance * major_len) then
                     (let ratio = (if 0 < major_len
                                   then sqrt ((fst minor_axis)\<^sup>2 + (snd minor_axis)\<^sup>2) / major_len
                                   else 0)
                      in if 95 / 100 < ratio then (data, new_polylines @ [pl])
                         else
                           (let params =
                                  (if is_full_ellipse (poly_points pl) center major_axis minor_axis
                                      \<and> poly_closed pl
                                   then (0, 2 * pi)
                                   else calculate_ellipse_params center major_axis minor_axis
                                          rotation (hd (poly_points pl)) (last (poly_points pl)))
                            in (data\<lparr>ellipses := ellipses data @
                                  [\<lparr>ell_center = Point (fst center) (snd center),
                                    ell_major_axis = Point (fst major_axis) (snd major_axis),
                                    ell_ratio = ratio,
                                    ell_start_param = fst params, ell_end_param = snd params,
                                    ell_color = poly_color pl, ell_width = poly_width pl,
                                    ell_layer = poly_layer pl, ell_linetype = poly_linetype pl\<rparr>]\<rparr>,
                                new_polylines)))
                   else (data, new_polylines @ [pl]))))"

fun ellipse_loop ::
  "conic_solver \<Rightarrow> real \<Rightarrow> polyline list \<Rightarrow> extracted_data \<times> polyline list \<Rightarrow> extracted_data \<times> polyline list" where
  "ellipse_loop solver tolerance [] acc = acc"
| "ellipse_loop solver tolerance (pl # pls) acc =
     ellipse_loop solver tolerance pls (ellipse_step solver tolerance pl acc)"

definition detect_ellipses :: "conic_solver \<Rightarrow> real \<Rightarrow> extracted_data \<Rightarrow> extracted_data" where
  "detect_ellipses solver tolerance data =
     (case ellipse_loop solver tolerance (polylines data) (data, []) of
        (data1, new_polylines) \<Rightarrow> data1\<lparr>polylines := new_polylines\<rparr>)"

section \<open>Well-formedness of the stored entities\<close>






section \<open>The promotion rules in the words of the specification\<close>

text \<open>The style of a polyline and of the entities derived from it.\<close>

type_synonym style = "rgb \<times> real \<times> string \<times> linetype"

definition poly_style :: "polyline \<Rightarrow> style" where
  "poly_style pl = (poly_color pl, poly_width pl, poly_layer pl, poly_linetype pl)"

definition circle_style :: "circle \<Rightarrow> style" where
  "circle_style c = (circle_color c, circle_width c, circle_layer c, circle_linetype c)"

definition arc_style :: "arc \<Rightarrow> style" where
  "arc_style a = (arc_color a, arc_width a, arc_layer a, arc_linetype a)"

definition ell_style :: "ellipse \<Rightarrow> style" where
  "ell_style e = (ell_color e, ell_width e, ell_layer e, ell_linetype e)"

text \<open>
  A polyline of at least 6 points whose circle fit succeeds with radius above 0.5 and
  RMS radial residual below \<open>tolerance * radius\<close>: the accepted centre and radius.
\<close>

definition accepted_circle_fit ::
  "lstsq_solver \<Rightarrow> real \<Rightarrow> polyline \<Rightarrow> ((real \<times> real) \<times> real) option" where
  "accepted_circle_fit lstsq tolerance pl =
     (if 6 \<le> length (poly_points pl) then
        (case fit_circle lstsq (poly_points pl) of
           None \<Rightarrow> None
         | Some (center, radius, rms) \<Rightarrow>
             if 1 / 2 < radius \<and> rms < tolerance * radius then Some (center, radius) else None)
      else None)"

text \<open>The bearing of a point from the centre, in degrees, brought into \<open>[0, 360)\<close>.\<close>

definition bearing :: "real \<times> real \<Rightarrow> point \<Rightarrow> real" where
  "bearing center p =
     (let a = degrees (atan2 (yc p - snd center) (xc p - fst center))
      in if a < 0 then a + 360 else a)"

definition angular_coverage :: "real \<times> real \<Rightarrow> point list \<Rightarrow> real" where
  "angular_coverage center pts =
     total_coverage (map (\<lambda>p. atan2 (yc p - snd center) (xc p - fst center)) pts)"

datatype promoted = ToCircle circle | ToArc arc

text \<open>
  Circle exactly when the coverage exceeds \<open>0.9 * 2 pi\<close>, the polyline is closed and has
  at least 8 points; otherwise an arc from the bearing of the first point to that of the
  last, the two swapped when the signed area about the centre is not positive.
\<close>

definition spec_promote :: "real \<times> real \<Rightarrow> real \<Rightarrow> polyline \<Rightarrow> promoted" where
  "spec_promote center radius pl =
     (if 9 / 10 * (2 * pi) < angular_coverage center (poly_points pl) \<and> poly_closed pl
         \<and> 8 \<le> length (poly_points pl) then
        ToCircle \<lparr>circle_center = Point (fst center) (snd center), circle_radius = radius,
                  circle_color = poly_color pl, circle_width = poly_width pl,
                  circle_layer = poly_layer pl, circle_linetype = poly_linetype pl\<rparr>
      else
        (let first_bearing = bearing center (hd (poly_points pl));
             last_bearing = bearing center (last (poly_points pl));
             clockwise = (signed_area (poly_points pl) center 0 \<le> 0)
         in ToArc \<lparr>arc_center = Point (fst center) (snd center), arc_radius = radius,
                   arc_start_angle = (if clockwise then last_bearing else first_bearing),
                   arc_end_angle = (if clockwise then first_bearing else last_bearing),
                   arc_color = poly_color pl, arc_width = poly_width pl,
                   arc_layer = poly_layer pl, arc_linetype = poly_linetype pl\<rparr>))"

text \<open>The promotions of a list of polylines, in order, and their circles and arcs.\<close>

fun promotions :: "lstsq_solver \<Rightarrow> real \<Rightarrow> polyline list \<Rightarrow> promoted list" where
  "promotions lstsq tolerance [] = []"
| "promotions lstsq tolerance (pl # pls) =
     (case accepted_circle_fit lstsq tolerance pl of
        None \<Rightarrow> promotions lstsq tolerance pls
      | Some (center, radius) \<Rightarrow> spec_promote center radius pl # promotions lstsq tolerance pls)"

fun circles_of :: "promoted list \<Rightarrow> circle list" where
  "circles_of [] = []"
| "circles_of (ToCircle c # ps) = c # circles_of ps"
| "circles_of (ToArc a # ps) = circles_of ps"

fun arcs_of :: "promoted list \<Rightarrow> arc list" where
  "arcs_of [] = []"
| "arcs_of (ToCircle c # ps) = arcs_of ps"
| "arcs_of (ToArc a # ps) = a # arcs_of ps"

definition promoted_style :: "promoted \<Rightarrow> style" where
  "promoted_style p = (case p of ToCircle c \<Rightarrow> circle_style c | ToArc a \<Rightarrow> arc_style a)"


section \<open>The ellipse rules in the words of the specification\<close>

text \<open>
  A polyline of at least 8 points whose ellipse fit succeeds with major axis length above
  0.5 and error below \<open>tolerance * major axis length\<close>: the fitted parameters and the
  minor to major ratio.
\<close>

definition accepted_ellipse_fit ::
  "conic_solver \<Rightarrow> real \<Rightarrow> polyline
     \<Rightarrow> ((real \<times> real) \<times> (real \<times> real) \<times> (real \<times> real) \<times> real \<times> real) option" where
  "accepted_ellipse_fit solver tolerance pl =
     (if 8 \<le> length (poly_points pl) then
        (case fit_ellipse solver (poly_points pl) of
           None \<Rightarrow> None
         | Some (center, major_axis, minor_axis, rotation, error) \<Rightarrow>
             (let major_len = sqrt ((fst major_axis)\<^sup>2 + (snd major_axis)\<^sup>2);
                  minor_len = sqrt ((fst minor_axis)\<^sup>2 + (snd minor_axis)\<^sup>2)
              in if 1 / 2 < major_len \<and> err_less error (tolerance * major_len)
                 then Some (center, major_axis, minor_axis, rotation, minor_len / major_len)
                 else None))
      else None)"

text \<open>An accepted fit is emitted unless it is near-circular (ratio above 0.95).\<close>

definition near_circular :: "conic_solver \<Rightarrow> real \<Rightarrow> polyline \<Rightarrow> bool" where
  "near_circular solver tolerance pl =
     (case accepted_ellipse_fit solver tolerance pl of
        None \<Rightarrow> False
      | Some (center, major_axis, minor_axis, rotation, ratio) \<Rightarrow> 95 / 100 < ratio)"

definition ellipse_emitted :: "conic_solver \<Rightarrow> real \<Rightarrow> polyline \<Rightarrow> bool" where
  "ellipse_emitted solver tolerance pl =
     (case accepted_ellipse_fit solver tolerance pl of
        None \<Rightarrow> False
      | Some (center, major_axis, minor_axis, rotation, ratio) \<Rightarrow> ratio \<le> 95 / 100)"

text \<open>
  Full ellipse (parameters 0 and \<open>2 pi\<close>) when the coverage test passes and the polyline
  is closed, otherwise the arc between the parameters of the first and last point.
\<close>

definition spec_ellipse ::
  "real \<times> real \<Rightarrow> real \<times> real \<Rightarrow> real \<times> real \<Rightarrow> real \<Rightarrow> real \<Rightarrow> polyline \<Rightarrow> ellipse" where
  "spec_ellipse center major_axis minor_axis rotation ratio pl =
     (let params =
            (if is_full_ellipse (poly_points pl) center major_axis minor_axis \<and> poly_closed pl
             then (0, 2 * pi)
             else calculate_ellipse_params center major_axis minor_axis rotation
                    (hd (poly_points pl)) (last (poly_points pl)))
      in \<lparr>ell_center = Point (fst center) (snd center),
          ell_major_axis = Point (fst major_axis) (snd major_axis),
          ell_ratio = ratio, ell_start_param = fst params, ell_end_param = snd params,
          ell_color = poly_color pl, ell_width = poly_width pl,
          ell_layer = poly_layer pl, ell_linetype = poly_linetype pl\<rparr>)"

fun emitted_ellipses :: "conic_solver \<Rightarrow> real \<Rightarrow> polyline list \<Rightarrow> ellipse list" where
  "emitted_ellipses solver tolerance [] = []"
| "emitted_ellipses solver tolerance (pl # pls) =
     (case accepted_ellipse_fit solver tolerance pl of
        None \<Rightarrow> emitted_ellipses solver tolerance pls
      | Some (center, major_axis, minor_axis, rotation, ratio) \<Rightarrow>
          if 95 / 100 < ratio then emitted_ellipses solver tolerance pls
          else spec_ellipse center major_axis minor_axis rotation ratio pl
                 # emitted_ellipses solver tolerance pls)"

section \<open>Example inputs\<close>

text \<open>
  Eight points on the ellipse \<open>x^2/400 + y^2/361 = 1\<close> (semi-axes 20 and 19), and a
  solver answering with a conic of that ellipse, \<open>-361 x^2 - 400 y^2 + 144400 = 0\<close>.
\<close>

definition ellipse_20_19_points :: "point list" where
  "ellipse_20_19_points =
     [Point 20 0, Point 12 (76 / 5), Point 0 19, Point (- 12) (76 / 5),
      Point (- 20) 0, Point (- 12) (- (76 / 5)), Point 0 (- 19), Point 12 (- (76 / 5))]"

definition ellipse_20_19_solver :: conic_solver where
  "ellipse_20_19_solver pts = Inr (Some (- 361, 0, - 400, 0, 0, 144400))"

definition ellipse_20_19_data :: extracted_data where
  "ellipse_20_19_data =
     empty_data\<lparr>polylines :=
       [\<lparr>poly_points = ellipse_20_19_points, poly_closed = True, poly_color = (0, 0, 0),
         poly_width = 1, poly_layer = ''0'', poly_linetype = CONTINUOUS, poly_bulges = []\<rparr>]\<rparr>"

text \<open>Three collinear points, and solvers that raise.\<close>

definition collinear_polyline :: polyline where
  "collinear_polyline =
     \<lparr>poly_points = [Point 0 0, Point 1 0, Point 2 0], poly_closed = False,
      poly_color = (0, 0, 0), poly_width = 1, poly_layer = ''0'',
      poly_linetype = CONTINUOUS, poly_bulges = []\<rparr>"

definition raising_lstsq :: lstsq_solver where
  "raising_lstsq rows rhs = Inl LinAlgError"

definition raising_conic_solver :: conic_solver where
  "raising_conic_solver pts = Inl ValueError"


section \<open>Point equality and hashing\<close>

text \<open>
  C9 (hashing consistent with the tolerance equality). The points \<open>(0.0000004, 0)\<close> and
  \<open>(0.0000006, 0)\<close> are equal under \<open>Point.__eq__\<close> (they differ by \<open>2e-7\<close>), but
  \<open>round(x, 6)\<close> sends the first abscissa to \<open>0.0\<close> and the second to \<open>1e-06\<close>, so
  \<open>__hash__\<close> hashes two different tuples.
\<close>

theorem point_hash_splits_equal_points:
  "point_eq (Point (4 / 10000000) 0) (Point (6 / 10000000) 0) \<and>
   hash_key (Point (4 / 10000000) 0) = (0, 0) \<and>
   hash_key (Point (6 / 10000000) 0) = (1 / 1000000, 0) \<and>
   hash_key (Point (4 / 10000000) 0) \<noteq> hash_key (Point (6 / 10000000) 0)"
  by (simp add: point_eq_def hash_key_def py_round_def round_half_even_def Let_def)

section \<open>Curve flattener: end points\<close>

lemma sample_last:
  assumes "1 \<le> n"
  shows "\<exists>pts. sample_curve f n = Inr pts \<and> pts \<noteq> [] \<and> hd pts = f 0 \<and> last pts = f 1 \<and> length pts = nat (n + 1)"
proof -
  define g where "g = (\<lambda>i. f (real_of_int i / real_of_int n))"
  have h: "[0..n] = 0 # [1..n]" using assms upto_rec1[of 0 n] by simp
  have l: "[0..n] = [0..n - 1] @ [n]" using assms upto_rec2[of 0 n] by simp
  have s: "sample_curve f n = Inr (map g [0..n])"
    using assms by (simp add: sample_curve_def g_def)
  have 1: "map g [0..n] \<noteq> []" by (simp add: h)
  have 2: "hd (map g [0..n]) = f 0" by (simp add: h g_def)
  have 3: "last (map g [0..n]) = f 1" using assms by (simp add: l g_def)
  have 4: "length (map g [0..n]) = nat (n + 1)" by simp
  show ?thesis using s 1 2 3 4 by blast
qed

lemma py_int_mono: "a \<le> b \<Longrightarrow> py_int a \<le> py_int b"
proof -
  assume ab: "a \<le> b"
  show ?thesis
  proof (cases "0 \<le> a")
    case True
    then show ?thesis using ab by (simp add: py_int_def floor_mono)
  next
    case False
    note na = this
    show ?thesis
    proof (cases "0 \<le> b")
      case True
      have "\<lceil>a\<rceil> \<le> 0" using na by (simp add: ceiling_le_zero)
      moreover have "0 \<le> \<lfloor>b\<rfloor>" using True by simp
      ultimately have "\<lceil>a\<rceil> \<le> \<lfloor>b\<rfloor>" by linarith
      then show ?thesis using na True by (simp add: py_int_def)
    next
      case False
      then show ?thesis using na ab by (simp add: py_int_def ceiling_mono)
    qed
  qed
qed

lemma py_int_ge: "of_int k \<le> a \<Longrightarrow> 0 \<le> k \<Longrightarrow> k \<le> py_int a"
  unfolding py_int_def by (auto simp: le_floor_iff)

lemma scaled_ge1: "1 \<le> s \<Longrightarrow> 1 \<le> r \<Longrightarrow> 1 \<le> py_int (of_int s * r)"
proof -
  assume s: "1 \<le> s" and r: "1 \<le> r"
  have "1 * 1 \<le> real_of_int s * r" using s r by (intro mult_mono) simp_all
  then show ?thesis by (intro py_int_ge) simp_all
qed

lemma cubic_tier_ge1:
  assumes "1 \<le> s"
  shows "1 \<le> (if 15 / 10 < r then min 64 (py_int (of_int s * r))
              else if 12 / 10 < r then min 48 (py_int (of_int s * (15 / 10)))
              else if 11 / 10 < r then min 32 (py_int (of_int s * (12 / 10)))
              else s)"
proof -
  have a: "1 \<le> py_int (of_int s * r)" if "15 / 10 < r"
    using assms that by (intro scaled_ge1) simp_all
  have b: "1 \<le> py_int (of_int s * (15 / 10))"
    using assms by (intro scaled_ge1) simp_all
  have c: "1 \<le> py_int (of_int s * (12 / 10))"
    using assms by (intro scaled_ge1) simp_all
  show ?thesis
  proof (cases "15 / 10 < r")
    case True
    then show ?thesis using a by (simp only: if_True min_def split: if_split) simp
  next
    case F1: False
    show ?thesis
    proof (cases "12 / 10 < r")
      case True
      then show ?thesis using F1 b by (simp only: if_True if_False min_def split: if_split) simp
    next
      case F2: False
      show ?thesis
      proof (cases "11 / 10 < r")
        case True
        then show ?thesis using F1 F2 c by (simp only: if_True if_False min_def split: if_split) simp
      next
        case False
        then show ?thesis using F1 F2 assms by (simp only: if_False)
      qed
    qed
  qed
qed

lemma bs_ge1: "1 \<le> s \<Longrightarrow> 1 \<le> bezier_segments p0 p1 p2 p3 s ad"
proof -
  assume s: "1 \<le> s"
  define ch where "ch = distance_to p0 p3"
  define cl where "cl = distance_to p0 p1 + distance_to p1 p2 + distance_to p2 p3"
  define segs where "segs = (if 1 / 1000 < ch then
       (if 15 / 10 < cl / ch then min 64 (py_int (of_int s * (cl / ch)))
              else if 12 / 10 < cl / ch then min 48 (py_int (of_int s * (15 / 10)))
              else if 11 / 10 < cl / ch then min 32 (py_int (of_int s * (12 / 10)))
              else s) else s)"
  have segs: "1 \<le> segs" unfolding segs_def using cubic_tier_ge1[OF s, of "cl / ch"] s
    by (simp only: split: if_split) simp
  have eq: "bezier_segments p0 p1 p2 p3 s ad =
     (if ad then (if 100 < cl then max segs 32 else if 50 < cl then max segs 24 else segs) else s)"
    unfolding bezier_segments_def Let_def segs_def ch_def cl_def by (rule refl)
  show ?thesis unfolding eq using segs s by (simp only: max_def split: if_split) simp
qed

lemma quad_tier_ge1:
  assumes "1 \<le> s"
  shows "1 \<le> (if 13 / 10 < r then min 32 (py_int (of_int s * r))
              else if 11 / 10 < r then min 24 (py_int (of_int s * (13 / 10)))
              else s)"
proof -
  have a: "1 \<le> py_int (of_int s * r)" if "13 / 10 < r"
    using assms that by (intro scaled_ge1) simp_all
  have b: "1 \<le> py_int (of_int s * (13 / 10))"
    using assms by (intro scaled_ge1) simp_all
  show ?thesis
  proof (cases "13 / 10 < r")
    case True
    then show ?thesis using a by (simp only: if_True min_def split: if_split) simp
  next
    case F1: False
    show ?thesis
    proof (cases "11 / 10 < r")
      case True
      then show ?thesis using F1 b by (simp only: if_True if_False min_def split: if_split) simp
    next
      case False
      then show ?thesis using F1 assms by (simp only: if_False)
    qed
  qed
qed

lemma qs_ge1: "1 \<le> s \<Longrightarrow> 1 \<le> quad_segments p0 p1 p2 s ad"
proof -
  assume s: "1 \<le> s"
  define ch where "ch = distance_to p0 p2"
  define cl where "cl = distance_to p0 p1 + distance_to p1 p2"
  have eq: "quad_segments p0 p1 p2 s ad =
     (if ad then (if 1 / 1000 < ch then
       (if 13 / 10 < cl / ch then min 32 (py_int (of_int s * (cl / ch)))
              else if 11 / 10 < cl / ch then min 24 (py_int (of_int s * (13 / 10)))
              else s) else s) else s)"
    unfolding quad_segments_def Let_def ch_def cl_def by (rule refl)
  show ?thesis unfolding eq using quad_tier_ge1[OF s, of "cl / ch"] s
    by (simp only: split: if_split) simp
qed

lemma distance_to_horizontal: "distance_to (Point a c) (Point b c) = \<bar>a - b\<bar>"
  by (simp add: distance_to_def)

lemma distance_to_vertical: "distance_to (Point c a) (Point c b) = \<bar>a - b\<bar>"
  by (simp add: distance_to_def)

text \<open>
  C3 (round-trip flatten). For every base segment count of at least one (the callers
  pass 16 and 12, the defaults), with or without adaptive sampling, and for all control
  points, degenerate or not: the cubic and the quadratic flattener return a list (no
  division by zero), the list is not empty, its first point is \<open>p0\<close> and its last point
  is the end point of the curve, exactly and hence also under the \<open>1e-6\<close> equality.
\<close>

theorem flatten_endpoints:
  assumes "1 \<le> segments" and "1 \<le> qsegments"
  shows "(\<exists>pts. bezier_to_points p0 p1 p2 p3 segments adaptive = Inr pts \<and> pts \<noteq> []
            \<and> hd pts = p0 \<and> last pts = p3
            \<and> point_eq (hd pts) p0 \<and> point_eq (last pts) p3) \<and>
         (\<exists>pts. quad_bezier_to_points p0 p1 p2 qsegments adaptive = Inr pts \<and> pts \<noteq> []
            \<and> hd pts = p0 \<and> last pts = p2
            \<and> point_eq (hd pts) p0 \<and> point_eq (last pts) p2)"
proof -
  have c0: "cubic_at p0 p1 p2 p3 0 = p0" and c1: "cubic_at p0 p1 p2 p3 1 = p3"
    by (simp_all add: cubic_at_def)
  have q0: "quad_at p0 p1 p2 0 = p0" and q1: "quad_at p0 p1 p2 1 = p2"
    by (simp_all add: quad_at_def)
  have same: "\<And>p. point_eq p p" by (simp add: point_eq_def)
  from sample_last[OF bs_ge1[OF assms(1)], of "cubic_at p0 p1 p2 p3" p0 p1 p2 p3 adaptive]
  have A: "\<exists>pts. bezier_to_points p0 p1 p2 p3 segments adaptive = Inr pts \<and> pts \<noteq> []
            \<and> hd pts = p0 \<and> last pts = p3
            \<and> point_eq (hd pts) p0 \<and> point_eq (last pts) p3"
    unfolding bezier_to_points_def using c0 c1 same by auto
  from sample_last[OF qs_ge1[OF assms(2)], of "quad_at p0 p1 p2" p0 p1 p2 adaptive]
  have B: "\<exists>pts. quad_bezier_to_points p0 p1 p2 qsegments adaptive = Inr pts \<and> pts \<noteq> []
            \<and> hd pts = p0 \<and> last pts = p2
            \<and> point_eq (hd pts) p0 \<and> point_eq (last pts) p2"
    unfolding quad_bezier_to_points_def using q0 q1 same by auto
  show ?thesis using A B by blast
qed

text \<open>The degenerate curve with all control points at the origin, at the default counts.\<close>

theorem flatten_endpoints_witness:
  "(1::int) \<le> 16 \<and> (1::int) \<le> 12 \<and>
   (\<exists>pts. bezier_to_points (Point 0 0) (Point 0 0) (Point 0 0) (Point 0 0) 16 True = Inr pts
       \<and> pts \<noteq> [] \<and> hd pts = Point 0 0 \<and> last pts = Point 0 0
       \<and> point_eq (hd pts) (Point 0 0) \<and> point_eq (last pts) (Point 0 0)) \<and>
   (\<exists>pts. quad_bezier_to_points (Point 0 0) (Point 0 0) (Point 0 0) 12 True = Inr pts
       \<and> pts \<noteq> [] \<and> hd pts = Point 0 0 \<and> last pts = Point 0 0
       \<and> point_eq (hd pts) (Point 0 0) \<and> point_eq (last pts) (Point 0 0))"
  using flatten_endpoints[of 16 12 "Point 0 0" "Point 0 0" "Point 0 0" "Point 0 0" True]
  by simp

section \<open>Curve flattener: adaptive monotonicity\<close>

lemma py_int_24: "py_int (real_of_int 16 * (15 / 10)) = 24"
  by (simp add: py_int_def)

lemma py_int_19: "py_int (real_of_int 16 * (12 / 10)) = 19"
proof -
  have "\<lfloor>(96::real) / 5\<rfloor> = 19" by (simp add: floor_eq_iff)
  then show ?thesis by (simp add: py_int_def)
qed

lemma py_int_15: "py_int (real_of_int 12 * (13 / 10)) = 15"
proof -
  have "\<lfloor>(78::real) / 5\<rfloor> = 15" by (simp add: floor_eq_iff)
  then show ?thesis by (simp add: py_int_def)
qed

text \<open>The ratio tiers at the default base counts never decrease with the ratio.\<close>

lemma cubic_tier16_mono:
  fixes r1 r2 :: real
  defines "tier \<equiv> (\<lambda>r. if 15 / 10 < r then min 64 (py_int (of_int 16 * r))
              else if 12 / 10 < r then min 48 (py_int (of_int 16 * (15 / 10)))
              else if 11 / 10 < r then min 32 (py_int (of_int 16 * (12 / 10)))
              else (16::int))"
  assumes "r1 \<le> r2"
  shows "tier r1 \<le> tier r2"
proof -
  have big: "24 \<le> py_int (of_int 16 * r)" if "15 / 10 < r" for r
    using that by (intro py_int_ge) simp_all
  have mono: "py_int (of_int 16 * r1) \<le> py_int (of_int 16 * r2)"
    using assms(2) by (intro py_int_mono) simp
  consider (a) "15 / 10 < r1" | (b) "\<not> 15 / 10 < r1" "15 / 10 < r2" | (c) "\<not> 15 / 10 < r2"
    by blast
  then show ?thesis
  proof cases
    case a
    then have "15 / 10 < r2" using assms(2) by linarith
    then show ?thesis using a mono unfolding tier_def
      by (simp only: if_True min_def split: if_split) simp
  next
    case b
    have "tier r1 \<le> 24" using b(1) unfolding tier_def py_int_24 py_int_19
      by (simp only: if_False split: if_split) simp
    moreover have "24 \<le> tier r2" using b(2) big[OF b(2)] unfolding tier_def
      by (simp only: if_True min_def split: if_split) simp
    ultimately show ?thesis by linarith
  next
    case c
    then have c1: "\<not> 15 / 10 < r1" using assms(2) by linarith
    show ?thesis using c c1 assms(2) unfolding tier_def py_int_24 py_int_19
      by (simp only: if_False split: if_split) simp
  qed
qed

lemma quad_tier12_mono:
  fixes r1 r2 :: real
  defines "tier \<equiv> (\<lambda>r. if 13 / 10 < r then min 32 (py_int (of_int 12 * r))
              else if 11 / 10 < r then min 24 (py_int (of_int 12 * (13 / 10)))
              else (12::int))"
  assumes "r1 \<le> r2"
  shows "tier r1 \<le> tier r2"
proof -
  have big: "15 \<le> py_int (of_int 12 * r)" if "13 / 10 < r" for r
    using that by (intro py_int_ge) simp_all
  have mono: "py_int (of_int 12 * r1) \<le> py_int (of_int 12 * r2)"
    using assms(2) by (intro py_int_mono) simp
  consider (a) "13 / 10 < r1" | (b) "\<not> 13 / 10 < r1" "13 / 10 < r2" | (c) "\<not> 13 / 10 < r2"
    by blast
  then show ?thesis
  proof cases
    case a
    then have "13 / 10 < r2" using assms(2) by linarith
    then show ?thesis using a mono unfolding tier_def
      by (simp only: if_True min_def split: if_split) simp
  next
    case b
    have "tier r1 \<le> 15" using b(1) unfolding tier_def py_int_15
      by (simp only: if_False split: if_split) simp
    moreover have "15 \<le> tier r2" using b(2) big[OF b(2)] unfolding tier_def
      by (simp only: if_True min_def split: if_split) simp
    ultimately show ?thesis by linarith
  next
    case c
    then have c1: "\<not> 13 / 10 < r1" using assms(2) by linarith
    show ?thesis using c c1 assms(2) unfolding tier_def py_int_15
      by (simp only: if_False split: if_split) simp
  qed
qed

lemma bezier_segments16_mono:
  assumes ch: "distance_to p0 p3 = distance_to q0 q3"
    and cl: "distance_to p0 p1 + distance_to p1 p2 + distance_to p2 p3
             \<le> distance_to q0 q1 + distance_to q1 q2 + distance_to q2 q3"
  shows "bezier_segments p0 p1 p2 p3 16 True \<le> bezier_segments q0 q1 q2 q3 16 True"
proof -
  define tier where "tier = (\<lambda>r::real. if 15 / 10 < r then min 64 (py_int (of_int 16 * r))
              else if 12 / 10 < r then min 48 (py_int (of_int 16 * (15 / 10)))
              else if 11 / 10 < r then min 32 (py_int (of_int 16 * (12 / 10)))
              else (16::int))"
  define c where "c = distance_to q0 q3"
  define l1 where "l1 = distance_to p0 p1 + distance_to p1 p2 + distance_to p2 p3"
  define l2 where "l2 = distance_to q0 q1 + distance_to q1 q2 + distance_to q2 q3"
  define a where "a = (if 1 / 1000 < c then tier (l1 / c) else 16)"
  define b where "b = (if 1 / 1000 < c then tier (l2 / c) else 16)"
  have l: "l1 \<le> l2" using cl by (simp add: l1_def l2_def)
  have ab: "a \<le> b"
  proof (cases "1 / 1000 < c")
    case True
    then have "l1 / c \<le> l2 / c" using l by (intro divide_right_mono) simp_all
    then have "tier (l1 / c) \<le> tier (l2 / c)"
      unfolding tier_def by (rule cubic_tier16_mono)
    then show ?thesis using True by (simp add: a_def b_def)
  next
    case False
    then show ?thesis by (simp add: a_def b_def)
  qed
  have e1: "bezier_segments p0 p1 p2 p3 16 True =
      (if 100 < l1 then max a 32 else if 50 < l1 then max a 24 else a)"
    unfolding bezier_segments_def Let_def a_def l1_def c_def ch tier_def by simp
  have e2: "bezier_segments q0 q1 q2 q3 16 True =
      (if 100 < l2 then max b 32 else if 50 < l2 then max b 24 else b)"
    unfolding bezier_segments_def Let_def b_def l2_def c_def tier_def by simp
  show ?thesis unfolding e1 e2 using ab l by (simp only: max_def split: if_split) simp
qed

lemma quad_segments12_mono:
  assumes ch: "distance_to p0 p2 = distance_to q0 q2"
    and cl: "distance_to p0 p1 + distance_to p1 p2 \<le> distance_to q0 q1 + distance_to q1 q2"
  shows "quad_segments p0 p1 p2 12 True \<le> quad_segments q0 q1 q2 12 True"
proof -
  define tier where "tier = (\<lambda>r::real. if 13 / 10 < r then min 32 (py_int (of_int 12 * r))
              else if 11 / 10 < r then min 24 (py_int (of_int 12 * (13 / 10)))
              else (12::int))"
  define c where "c = distance_to q0 q2"
  define l1 where "l1 = distance_to p0 p1 + distance_to p1 p2"
  define l2 where "l2 = distance_to q0 q1 + distance_to q1 q2"
  have e1: "quad_segments p0 p1 p2 12 True = (if 1 / 1000 < c then tier (l1 / c) else 12)"
    unfolding quad_segments_def Let_def l1_def c_def ch tier_def by simp
  have e2: "quad_segments q0 q1 q2 12 True = (if 1 / 1000 < c then tier (l2 / c) else 12)"
    unfolding quad_segments_def Let_def l2_def c_def tier_def by simp
  show ?thesis
  proof (cases "1 / 1000 < c")
    case True
    then have "l1 / c \<le> l2 / c" using cl unfolding l1_def l2_def
      by (intro divide_right_mono) simp_all
    then have "tier (l1 / c) \<le> tier (l2 / c)"
      unfolding tier_def by (rule quad_tier12_mono)
    then show ?thesis using True by (simp add: e1 e2)
  next
    case False
    then show ?thesis by (simp add: e1 e2)
  qed
qed

lemma sample_length:
  assumes "1 \<le> n"
  shows "\<exists>pts. sample_curve f n = Inr pts \<and> length pts = nat (n + 1)"
  using assms by (simp add: sample_curve_def)

text \<open>
  C4 (adaptive monotonicity). At the default base counts (16 for a cubic, 12 for a
  quadratic, adaptive sampling on), two curves with equal chord length and control-polygon
  lengths \<open>l1 \<le> l2\<close> are both flattened without error and the second gets at least
  as many points as the first.
\<close>

theorem flatten_count_monotone:
  assumes "distance_to p0 p3 = distance_to q0 q3"
    and "distance_to p0 p1 + distance_to p1 p2 + distance_to p2 p3
             \<le> distance_to q0 q1 + distance_to q1 q2 + distance_to q2 q3"
    and "distance_to a0 a2 = distance_to b0 b2"
    and "distance_to a0 a1 + distance_to a1 a2 \<le> distance_to b0 b1 + distance_to b1 b2"
  shows "(\<exists>ps qs. bezier_to_points p0 p1 p2 p3 16 True = Inr ps \<and>
                  bezier_to_points q0 q1 q2 q3 16 True = Inr qs \<and> length ps \<le> length qs) \<and>
         (\<exists>ps qs. quad_bezier_to_points a0 a1 a2 12 True = Inr ps \<and>
                  quad_bezier_to_points b0 b1 b2 12 True = Inr qs \<and> length ps \<le> length qs)"
proof -
  have n1: "1 \<le> bezier_segments p0 p1 p2 p3 16 True" by (rule bs_ge1) simp
  have n2: "1 \<le> bezier_segments q0 q1 q2 q3 16 True" by (rule bs_ge1) simp
  have m1: "1 \<le> quad_segments a0 a1 a2 12 True" by (rule qs_ge1) simp
  have m2: "1 \<le> quad_segments b0 b1 b2 12 True" by (rule qs_ge1) simp
  obtain ps where ps: "bezier_to_points p0 p1 p2 p3 16 True = Inr ps"
      "length ps = nat (bezier_segments p0 p1 p2 p3 16 True + 1)"
    using sample_length[OF n1] unfolding bezier_to_points_def by blast
  obtain qs where qs: "bezier_to_points q0 q1 q2 q3 16 True = Inr qs"
      "length qs = nat (bezier_segments q0 q1 q2 q3 16 True + 1)"
    using sample_length[OF n2] unfolding bezier_to_points_def by blast
  obtain as where as: "quad_bezier_to_points a0 a1 a2 12 True = Inr as"
      "length as = nat (quad_segments a0 a1 a2 12 True + 1)"
    using sample_length[OF m1] unfolding quad_bezier_to_points_def by blast
  obtain bs where bs: "quad_bezier_to_points b0 b1 b2 12 True = Inr bs"
      "length bs = nat (quad_segments b0 b1 b2 12 True + 1)"
    using sample_length[OF m2] unfolding quad_bezier_to_points_def by blast
  have "length ps \<le> length qs"
    using bezier_segments16_mono[OF assms(1,2)] ps(2) qs(2) by simp
  moreover have "length as \<le> length bs"
    using quad_segments12_mono[OF assms(3,4)] as(2) bs(2) by simp
  ultimately show ?thesis using ps(1) qs(1) as(1) bs(1) by blast
qed

text \<open>
  A straight cubic of chord 3 against a bulged one of the same chord and control length
  11; a straight quadratic of chord 2 against one that overshoots (control length 8).
\<close>

theorem flatten_count_monotone_witness:
  "distance_to (Point 0 0) (Point 3 0) = distance_to (Point 0 0) (Point 3 0) \<and>
   distance_to (Point 0 0) (Point 1 0) + distance_to (Point 1 0) (Point 2 0)
     + distance_to (Point 2 0) (Point 3 0)
   \<le> distance_to (Point 0 0) (Point 0 4) + distance_to (Point 0 4) (Point 3 4)
     + distance_to (Point 3 4) (Point 3 0) \<and>
   distance_to (Point 0 0) (Point 2 0) = distance_to (Point 0 0) (Point 2 0) \<and>
   distance_to (Point 0 0) (Point 1 0) + distance_to (Point 1 0) (Point 2 0)
   \<le> distance_to (Point 0 0) (Point 5 0) + distance_to (Point 5 0) (Point 2 0) \<and>
   (\<exists>ps qs. bezier_to_points (Point 0 0) (Point 1 0) (Point 2 0) (Point 3 0) 16 True = Inr ps \<and>
       bezier_to_points (Point 0 0) (Point 0 4) (Point 3 4) (Point 3 0) 16 True = Inr qs \<and>
       length ps \<le> length qs) \<and>
   (\<exists>ps qs. quad_bezier_to_points (Point 0 0) (Point 1 0) (Point 2 0) 12 True = Inr ps \<and>
       quad_bezier_to_points (Point 0 0) (Point 5 0) (Point 2 0) 12 True = Inr qs \<and>
       length ps \<le> length qs)"
proof -
  have h1: "distance_to (Point 0 0) (Point 3 0) = distance_to (Point 0 0) (Point 3 0)" by simp
  have h2: "distance_to (Point 0 0) (Point 1 0) + distance_to (Point 1 0) (Point 2 0)
     + distance_to (Point 2 0) (Point 3 0)
   \<le> distance_to (Point 0 0) (Point 0 4) + distance_to (Point 0 4) (Point 3 4)
     + distance_to (Point 3 4) (Point 3 0)"
    by (simp add: distance_to_horizontal distance_to_vertical)
  have h3: "distance_to (Point 0 0) (Point 2 0) = distance_to (Point 0 0) (Point 2 0)" by simp
  have h4: "distance_to (Point 0 0) (Point 1 0) + distance_to (Point 1 0) (Point 2 0)
   \<le> distance_to (Point 0 0) (Point 5 0) + distance_to (Point 5 0) (Point 2 0)"
    by (simp add: distance_to_horizontal distance_to_vertical)
  show ?thesis using h2 h4 flatten_count_monotone[OF h1 h2 h3 h4] by simp
qed

section \<open>Primitive classifier\<close>












section \<open>Subpath reconstructor: the close command and the end of the stream\<close>

lemma up16: "[0..16::int] = [0,1,2,3,4,5,6,7,8,9,10,11,12,13,14,15,16]"
  by (simp add: upto.simps)

lemma bez_ex: "bezier_segments (Point 10 0) (Point 7 0) (Point 3 0) (Point 0 0) 16 True = 16"
  by (simp add: bezier_segments_def Let_def distance_to_horizontal)

text \<open>
  C6, as stated, fails: after \<open>Move (0,0)\<close>, two lines to \<open>(10,0)\<close> and \<open>(10,5)\<close> and
  \<open>Close\<close>, the closed subpath is flushed and the point list is emptied, but the current
  point is still \<open>(10,5)\<close>: the \<open>'h'\<close> branch assigns neither \<open>current_point\<close> nor
  \<open>path_start\<close>. (Scale 1 and page height 0, so a source point \<open>(x, y)\<close> maps to
  \<open>(x, -y)\<close>.)
\<close>

theorem close_keeps_current_point:
  "process_items 1 0
     \<lparr>d_items = [], d_color = (0, 0, 0), d_fill_color = None, d_width = 1,
      d_linetype = CONTINUOUS, d_closePath = False\<rparr>
     [MoveTo (0, 0), LineTo (0, 0) (10, 0), LineTo (10, 0) (10, - 5), ClosePath]
     (initial_state empty_data) =
   Inr \<lparr>all_subpaths =
          [\<lparr>sp_points = [Point 0 0, Point 10 0, Point 10 5, Point 0 0], sp_closed = True,
            sp_has_curves = False\<rparr>],
        current_point = Some (Point 10 5), path_points = [], path_start = Some (Point 0 0),
        has_curves = False, out_data = empty_data\<rparr>"
  by (simp add: initial_state_def flush_subpath_def Let_def transform_point_def transform_y_def
        point_eq_def)

text \<open>
  A consequence of the stale state: a curve that follows \<open>Close\<close> starts from the stale
  current point and its samples open a subpath that lacks its first point; at the end of
  the stream that subpath is compared with the stale \<open>path_start\<close> and marked closed,
  although its last point \<open>(0,0)\<close> differs from its first point.
\<close>

lemma stale_start_after_close:
  "(case process_items 1 0
     \<lparr>d_items = [], d_color = (0, 0, 0), d_fill_color = None, d_width = 1,
      d_linetype = CONTINUOUS, d_closePath = False\<rparr>
     [MoveTo (0, 0), LineTo (0, 0) (10, 0), ClosePath, CurveTo (7, 0) (3, 0) (0, 0)]
     (initial_state empty_data) of
     Inl err \<Rightarrow> None
   | Inr st \<Rightarrow> Some (path_start st, hd (path_points st), last (path_points st), 
       map sp_closed (all_subpaths (save_remaining \<lparr>d_items = [], d_color = (0, 0, 0), d_fill_color = None, d_width = 1,
      d_linetype = CONTINUOUS, d_closePath = False\<rparr> st)))) = 
    Some (Some (Point 0 0), Point (19305 / 2048) 0, Point 0 0, [True, True])"
  by (simp add: initial_state_def flush_subpath_def Let_def transform_point_def transform_y_def
        point_eq_def extend_curve_def bezier_to_points_def bez_ex sample_curve_def up16 cubic_at_def save_remaining_def)

text \<open>
  C6, amended. \<open>Close\<close> appends the recorded start point when start and current point
  are both set and differ under the point equality, appends the subpath to the result
  as closed when it has more than one point, and empties the point list and the curve
  flag; every other variable, the current point and the recorded start included, keeps
  its value. At the end of the stream a remaining subpath of more than one point is
  appended, closed exactly when the declared close flag is set or its last point equals
  the recorded start point; a shorter one is dropped.
\<close>

theorem close_and_end_of_stream:
  "process_item scale h dr ClosePath st =
     Inr (st\<lparr>all_subpaths := all_subpaths st @
               (let pts = (case (path_start st, current_point st) of
                             (Some s, Some c) \<Rightarrow>
                               if point_eq s c then path_points st else path_points st @ [s]
                           | _ \<Rightarrow> path_points st)
                in if 1 < length pts
                   then [\<lparr>sp_points = pts, sp_closed = True, sp_has_curves = has_curves st\<rparr>]
                   else []),
             path_points := [], has_curves := False\<rparr>) \<and>
   save_remaining dr st =
     st\<lparr>all_subpaths := all_subpaths st @
          (if 1 < length (path_points st)
           then [\<lparr>sp_points = path_points st,
                  sp_closed = (d_closePath dr \<or>
                     (case path_start st of None \<Rightarrow> False
                      | Some s \<Rightarrow> point_eq (last (path_points st)) s)),
                  sp_has_curves = has_curves st\<rparr>]
           else [])\<rparr>"
  by (cases "path_start st"; cases "current_point st")
     (simp_all add: flush_subpath_def save_remaining_def Let_def)

section \<open>Stored rectangles and polylines\<close>




















section \<open>Circle and arc detection\<close>

lemma atan2_bounds: "- pi < atan2 y x \<and> atan2 y x \<le> pi"
proof -
  have lb: "- (pi / 2) < arctan (y / x)" by (rule arctan_lbound)
  have ub: "arctan (y / x) < pi / 2" by (rule arctan_ubound)
  have pp: "0 < pi" by (rule pi_gt_zero)
  consider (a) "0 < x" | (b) "x < 0" "0 \<le> y" | (c) "x < 0" "y < 0"
    | (d) "x = 0" "0 < y" | (e) "x = 0" "y < 0" | (f) "x = 0" "y = 0" by linarith
  then show ?thesis
  proof cases
    case a
    then have "atan2 y x = arctan (y / x)" by (simp add: atan2_def)
    then show ?thesis using lb ub pp by linarith
  next
    case b
    then have "y / x \<le> 0" by (simp add: divide_nonneg_neg)
    then have le: "arctan (y / x) \<le> 0" by (simp add: arctan_le_zero_iff)
    have "atan2 y x = arctan (y / x) + pi" using b by (simp add: atan2_def)
    then show ?thesis using le lb pp by linarith
  next
    case c
    then have "0 < y / x" by (simp add: divide_neg_neg)
    then have gt: "0 < arctan (y / x)" by (simp add: zero_less_arctan_iff)
    have "atan2 y x = arctan (y / x) - pi" using c by (simp add: atan2_def)
    then show ?thesis using gt ub pp by linarith
  next
    case d
    then have "atan2 y x = pi / 2" by (simp add: atan2_def)
    then show ?thesis using pp by linarith
  next
    case e
    then have "atan2 y x = - (pi / 2)" by (simp add: atan2_def)
    then show ?thesis using pp by linarith
  next
    case f
    then have "atan2 y x = 0" by (simp add: atan2_def)
    then show ?thesis using pp by linarith
  qed
qed

lemma degrees_bounds:
  assumes "- pi < t" "t \<le> pi"
  shows "- 180 < degrees t \<and> degrees t \<le> 180"
proof -
  have pp: "0 < pi" by (rule pi_gt_zero)
  then have k: "0 < 180 / pi" by simp
  have e: "degrees t = t * (180 / pi)" by (simp add: degrees_def)
  have p180: "pi * (180 / pi) = 180" using pp by simp
  have "(- pi) * (180 / pi) < t * (180 / pi)"
    using assms(1) k by (rule mult_strict_right_mono)
  moreover have "t * (180 / pi) \<le> pi * (180 / pi)"
    using assms(2) k by (intro mult_right_mono) simp_all
  ultimately show ?thesis unfolding e using p180 by simp
qed

lemma bearing_range: "0 \<le> bearing c p \<and> bearing c p < 360"
proof -
  define t where "t = atan2 (yc p - snd c) (xc p - fst c)"
  have b: "- pi < t" "t \<le> pi" using atan2_bounds[of "yc p - snd c" "xc p - fst c"]
    by (simp_all add: t_def)
  have d: "- 180 < degrees t" "degrees t \<le> 180" using degrees_bounds[OF b] by simp_all
  have e: "bearing c p = (if degrees t < 0 then degrees t + 360 else degrees t)"
    by (simp add: bearing_def Let_def t_def)
  show ?thesis unfolding e using d by (simp only: split: if_split) simp
qed

lemma calculate_arc_angles_bearing:
  "calculate_arc_angles c p q = (bearing c p, bearing c q)"
  by (simp add: calculate_arc_angles_def bearing_def Let_def)

lemma is_full_circle_coverage:
  "is_full_circle pts c r = (8 \<le> length pts \<and> 9 / 10 * (2 * pi) < angular_coverage c pts)"
  by (auto simp add: is_full_circle_def angular_coverage_def)

lemma is_ccw_area:
  "3 \<le> length pts \<Longrightarrow> (\<not> is_ccw pts c) = (signed_area pts c 0 \<le> 0)"
  by (auto simp add: is_ccw_def)

lemma circle_step_spec:
  "circle_step L tol pl (d, np) =
     (case accepted_circle_fit L tol pl of
        None \<Rightarrow> (d, np @ [pl])
      | Some (c, r) \<Rightarrow>
          (case spec_promote c r pl of
             ToCircle ci \<Rightarrow> (d\<lparr>circles := circles d @ [ci]\<rparr>, np)
           | ToArc a \<Rightarrow> (d\<lparr>arcs := arcs d @ [a]\<rparr>, np)))"
proof (cases "length (poly_points pl) < 6")
  case True
  then show ?thesis by (simp add: circle_step_def accepted_circle_fit_def)
next
  case False
  then have six: "6 \<le> length (poly_points pl)" by simp
  then have three: "3 \<le> length (poly_points pl)" by simp
  show ?thesis
  proof (cases "fit_circle L (poly_points pl)")
    case None
    then show ?thesis using False by (simp add: circle_step_def accepted_circle_fit_def)
  next
    case (Some fit)
    obtain c r e where fit: "fit = (c, r, e)" by (cases fit) auto
    show ?thesis
    proof (cases "1 / 2 < r \<and> e < tol * r")
      case F: False
      then show ?thesis using False Some fit
        by (auto simp add: circle_step_def accepted_circle_fit_def)
    next
      case T: True
      have acc: "accepted_circle_fit L tol pl = Some (c, r)"
        using six Some fit T by (simp add: accepted_circle_fit_def)
      show ?thesis
      proof (cases "is_full_circle (poly_points pl) c r \<and> poly_closed pl")
        case True
        then have sp: "spec_promote c r pl =
            ToCircle \<lparr>circle_center = Point (fst c) (snd c), circle_radius = r,
                  circle_color = poly_color pl, circle_width = poly_width pl,
                  circle_layer = poly_layer pl, circle_linetype = poly_linetype pl\<rparr>"
          by (simp add: spec_promote_def is_full_circle_coverage)
        show ?thesis using False Some fit T True
          by (simp add: circle_step_def acc sp)
      next
        case nf: False
        then have cond: "\<not> (9 / 10 * (2 * pi) < angular_coverage c (poly_points pl) \<and> poly_closed pl
             \<and> 8 \<le> length (poly_points pl))"
          by (auto simp add: is_full_circle_coverage)
        have sp: "spec_promote c r pl =
           ToArc \<lparr>arc_center = Point (fst c) (snd c), arc_radius = r,
                   arc_start_angle = (if signed_area (poly_points pl) c 0 \<le> 0
                       then bearing c (last (poly_points pl)) else bearing c (hd (poly_points pl))),
                   arc_end_angle = (if signed_area (poly_points pl) c 0 \<le> 0
                       then bearing c (hd (poly_points pl)) else bearing c (last (poly_points pl))),
                   arc_color = poly_color pl, arc_width = poly_width pl,
                   arc_layer = poly_layer pl, arc_linetype = poly_linetype pl\<rparr>"
          unfolding spec_promote_def using cond by (simp only: if_False Let_def)
        show ?thesis using False Some fit T nf is_ccw_area[OF three, of c]
          by (auto simp add: circle_step_def calculate_arc_angles_bearing Let_def acc sp)
      qed
    qed
  qed
qed

lemma circle_loop_spec:
  "circle_loop L tol pls (d, np) =
     (d\<lparr>circles := circles d @ circles_of (promotions L tol pls),
        arcs := arcs d @ arcs_of (promotions L tol pls)\<rparr>,
      np @ filter (\<lambda>pl. accepted_circle_fit L tol pl = None) pls)"
proof (induction pls arbitrary: d np)
  case Nil
  then show ?case by simp
next
  case (Cons pl pls)
  show ?case
  proof (cases "accepted_circle_fit L tol pl")
    case None
    then show ?thesis using Cons.IH by (simp add: circle_step_spec)
  next
    case (Some cr)
    obtain c r where cr: "cr = (c, r)" by (cases cr) auto
    show ?thesis
    proof (cases "spec_promote c r pl")
      case (ToCircle ci)
      then show ?thesis using Some cr Cons.IH by (simp add: circle_step_spec)
    next
      case (ToArc a)
      then show ?thesis using Some cr Cons.IH by (simp add: circle_step_spec)
    qed
  qed
qed

lemma detect_circles_spec:
  "detect_circles_and_arcs L tol d =
     d\<lparr>circles := circles d @ circles_of (promotions L tol (polylines d)),
       arcs := arcs d @ arcs_of (promotions L tol (polylines d)),
       polylines := filter (\<lambda>pl. accepted_circle_fit L tol pl = None) (polylines d)\<rparr>"
  by (simp add: detect_circles_and_arcs_def circle_loop_spec)


lemma promotions_style:
  "map promoted_style (promotions L tol pls) =
     map poly_style (filter (\<lambda>pl. accepted_circle_fit L tol pl \<noteq> None) pls)"
proof (induction pls)
  case Nil
  then show ?case by simp
next
  case (Cons pl pls)
  show ?case
  proof (cases "accepted_circle_fit L tol pl")
    case None
    then show ?thesis using Cons by simp
  next
    case (Some cr)
    obtain c r where cr: "cr = (c, r)" by (cases cr) auto
    have "promoted_style (spec_promote c r pl) = poly_style pl"
      by (simp add: promoted_style_def spec_promote_def circle_style_def arc_style_def
            poly_style_def Let_def)
    then show ?thesis using Some cr Cons by simp
  qed
qed

lemma circles_arcs_partition:
  "mset (map circle_style (circles_of ps)) + mset (map arc_style (arcs_of ps))
     = mset (map promoted_style ps)"
  by (induction ps rule: circles_of.induct) (simp_all add: promoted_style_def)

text \<open>
  C1 (promotion to circle or arc). One iteration of the loop keeps the polyline unless it
  has at least 6 points and its fit is accepted (radius above 0.5, RMS residual below
  \<open>tolerance * radius\<close>); an accepted polyline is dropped from the polyline list and
  replaced by what the rules of the specification give: the circle exactly when the
  coverage exceeds \<open>0.9 * 2 pi\<close>, the polyline is closed and has at least 8 points, else
  the arc between the bearings of the first and last point, swapped when the signed area
  about the centre is not positive. The whole sweep appends these circles and arcs in
  order and keeps exactly the polylines that were not accepted. Every bearing lies in
  \<open>[0, 360)\<close>. The solver behind the fit is arbitrary.
\<close>

theorem circle_arc_promotion:
  "circle_step L tol pl (d, np) =
     (case accepted_circle_fit L tol pl of
        None \<Rightarrow> (d, np @ [pl])
      | Some (c, r) \<Rightarrow>
          (case spec_promote c r pl of
             ToCircle ci \<Rightarrow> (d\<lparr>circles := circles d @ [ci]\<rparr>, np)
           | ToArc a \<Rightarrow> (d\<lparr>arcs := arcs d @ [a]\<rparr>, np))) \<and>
   detect_circles_and_arcs L tol d =
     d\<lparr>circles := circles d @ circles_of (promotions L tol (polylines d)),
       arcs := arcs d @ arcs_of (promotions L tol (polylines d)),
       polylines := filter (\<lambda>pl. accepted_circle_fit L tol pl = None) (polylines d)\<rparr> \<and>
   0 \<le> bearing center p \<and> bearing center p < 360"
  using circle_step_spec[of L tol pl d np] detect_circles_spec[of L tol d]
    bearing_range[of center p]
  by simp

end
